theory Spec2Isabelle
  imports Main
begin

section \<open>The indexer of src/index.ts: data\<close>

text \<open>
  The embedding follows \<^verbatim>\<open>src/index.ts\<close> function by function. The three collaborators the
  functions receive or import (the contract instance \<^verbatim>\<open>midiInstance\<close>, the database object
  \<^verbatim>\<open>db\<close> and node-fetch's \<^verbatim>\<open>fetch\<close>) are parameters of the model, as they are parameters
  of the source: a record of functions for each. Nothing is assumed about what the database
  does with a call; its store is a type variable.
\<close>

type_synonym address = string

text \<open>
  Modelled from the spec: the type \<^verbatim>\<open>MIDIMetadata\<close> of \<^verbatim>\<open>./types/midi.types\<close>, which is not
  among the sources. The spec (section 6) gives "a JSON document with at least
  properties.device (string) and optional properties.manufacturer (string)". The cast
  \<^verbatim>\<open>(await res.json()) as MIDIMetadata\<close> of line 35 checks nothing, so \<open>MIDIMetadata\<close> is
  here whatever \<^verbatim>\<open>res.json()\<close> can give, as far as index.ts reads it:
  \<^item> \<open>Falsy\<close>: a body that is \<^verbatim>\<open>null\<close>, \<^verbatim>\<open>false\<close>, \<^verbatim>\<open>0\<close> or \<^verbatim>\<open>""\<close>, for which
    \<^verbatim>\<open>!metadata\<close> holds;
  \<^item> \<open>Document None\<close>: any other body whose \<^verbatim>\<open>properties\<close> is undefined or null (the body
    \<^verbatim>\<open>{}\<close>, say), on which \<^verbatim>\<open>metadata.properties.device\<close> throws a TypeError;
  \<^item> \<open>Document (Some p)\<close>: a body with \<^verbatim>\<open>properties\<close>. Of \<^verbatim>\<open>device\<close> the code tests the
    truthiness before it uses it as a string: \<open>None\<close> is an undefined or null device.
    \<^verbatim>\<open>manufacturer\<close> is defaulted with \<^verbatim>\<open>??\<close> and printed in a template literal, which
    tell undefined, null and a string apart.
  A \<^verbatim>\<open>device\<close> or \<^verbatim>\<open>manufacturer\<close> that is neither absent nor a string is outside the
  spec's format and outside this type.
\<close>

datatype field = Undefined | Null | Text string

record Properties =
  device :: "string option"
  manufacturer :: field

datatype MIDIMetadata = Falsy | Document "Properties option"

text \<open>The rows the database collaborator hands out, with the fields index.ts reads.\<close>

record Device =
  device_id :: nat
  device_name :: string
  device_manufacturer :: string

record MidiRow =
  midi_id :: nat
  midi_metadata :: MIDIMetadata
  midi_device :: nat
  midi_createdBy :: address

record QueueRow =
  queue_id :: nat
  queue_operator :: address
  queue_attempts :: nat
  queue_error :: string

record PostgrestError =
  details :: string
  message :: string

text \<open>
  An awaited call either resolves with a value or rejects. index.ts has no
  \<^verbatim>\<open>try\<close>/\<^verbatim>\<open>catch\<close>, so a rejection travels up through every \<^verbatim>\<open>await\<close> to the caller.
\<close>

datatype rejection = RpcError | NetworkError | SyntaxError | TypeError

datatype 'a promise = Resolved 'a | Rejected rejection

text \<open>
  The contract instance: \<^verbatim>\<open>uri(id)\<close> (\<open>None\<close> when the call rejects),
  \<^verbatim>\<open>currentTokenId()\<close>, and the list that
  \<^verbatim>\<open>queryFilter(filters.TransferSingle(null, AddressZero, null, null, null), 7853362)\<close>
  returns. An event's \<^verbatim>\<open>args\<close> is optional, as in ethers.
\<close>

record TransferSingleArgs =
  arg_operator :: address
  arg_id :: nat

record Event =
  args :: "TransferSingleArgs option"

record Contract =
  uri :: "nat \<Rightarrow> string option"
  currentTokenId :: nat
  queryFilter :: "Event list"

text \<open>
  The response of \<^verbatim>\<open>fetch\<close>: \<^verbatim>\<open>res.ok\<close>, and what \<^verbatim>\<open>res.json()\<close> gives (\<open>None\<close> when the
  body is not JSON and \<^verbatim>\<open>res.json()\<close> rejects). \<^verbatim>\<open>fetch\<close> itself gives \<open>None\<close> when it rejects.
\<close>

record Response =
  ok :: bool
  json :: "MIDIMetadata option"

type_synonym Fetch = "string \<Rightarrow> Response option"

text \<open>
  The database object \<^verbatim>\<open>db\<close> (\<^verbatim>\<open>./db\<close>, not among the sources), with the seven methods
  index.ts calls, over a store \<open>'d\<close>. A method answers with the values index.ts tests
  (a device or none, an error or none, rows); its promise is taken to resolve.
\<close>

record 'd DB =
  devices_fetchByName :: "string \<Rightarrow> 'd \<Rightarrow> Device option"
  devices_create :: "string \<Rightarrow> string \<Rightarrow> 'd \<Rightarrow> Device option \<times> 'd"
  midi_create :: "MidiRow \<Rightarrow> 'd \<Rightarrow> PostgrestError option \<times> 'd"
  midi_fetch :: "'d \<Rightarrow> MidiRow list"
  queue_fetch :: "nat \<Rightarrow> 'd \<Rightarrow> QueueRow list"
  queue_create :: "nat \<Rightarrow> string \<Rightarrow> address \<Rightarrow> 'd \<Rightarrow> 'd"
  queue_update :: "nat \<Rightarrow> nat \<Rightarrow> string \<Rightarrow> 'd \<Rightarrow> 'd"

text \<open>
  What a run leaves behind: the database store, and the trace of what happened, in
  order: the console lines, each call of \<^verbatim>\<open>indexById\<close> and what its promise settled
  with, each call of \<^verbatim>\<open>fetchOriginalMinter\<close>, and each call on \<^verbatim>\<open>db\<close> (for the calls
  index.ts reads the answer of, with the answer).
\<close>

datatype console_line =
    ErrorFetching string
  | MetadataIs MIDIMetadata
  | CreatingDeviceFailed
  | ErrorUpdatingMidiMetadata PostgrestError
  | TargetEventFound
  | FailedFetchingOperator nat
  | LogOperator address
  | LogFrom address
  | LogTo address
  | LogId nat

datatype event =
    Console console_line
  | IndexById nat address
  | IndexByIdReturn nat "string option promise"
  | FetchOriginalMinter nat
  | DevicesFetchByName string "Device option"
  | DevicesCreate string string "Device option"
  | MidiCreate MidiRow "PostgrestError option"
  | MidiFetch
  | QueueFetch nat
  | QueueCreate nat string address
  | QueueUpdate nat nat string

record 'd world =
  store :: 'd
  trace :: "event list"

definition emit :: "event \<Rightarrow> 'd world \<Rightarrow> 'd world" where
  "emit e w = w\<lparr>trace := trace w @ [e]\<rparr>"

section \<open>The functions of index.ts\<close>

text \<open>
  \<^verbatim>\<open>String.prototype.replace\<close> with a string pattern: the first occurrence is replaced.
\<close>

fun replace :: "string \<Rightarrow> string \<Rightarrow> string \<Rightarrow> string" where
  "replace pat rep [] = (if pat = [] then rep else [])"
| "replace pat rep (c # cs) =
     (if take (length pat) (c # cs) = pat then rep @ drop (length pat) (c # cs)
      else c # replace pat rep cs)"

text \<open>\<^verbatim>\<open>fetchMetadata\<close>, lines 27 to 38.\<close>

definition fetchMetadata ::
  "Fetch \<Rightarrow> nat \<Rightarrow> Contract \<Rightarrow> 'd world \<Rightarrow> MIDIMetadata option promise \<times> 'd world" where
  "fetchMetadata fetch i midiInstance w =
     (case uri midiInstance i of
        None \<Rightarrow> (Rejected RpcError, w)
      | Some u0 \<Rightarrow>
          (let u = replace ''ipfs://'' ''https://nftstorage.link/ipfs/'' u0 in
           case fetch u of
             None \<Rightarrow> (Rejected NetworkError, w)
           | Some res \<Rightarrow>
               if \<not> ok res then (Resolved None, emit (Console (ErrorFetching u)) w)
               else
                 (case json res of
                    None \<Rightarrow> (Rejected SyntaxError, w)
                  | Some metadata \<Rightarrow>
                      (Resolved (Some metadata), emit (Console (MetadataIs metadata)) w))))"

text \<open>
  A template literal prints an undefined value as \<^verbatim>\<open>undefined\<close> and null as \<^verbatim>\<open>null\<close>;
  \<^verbatim>\<open>v ?? d\<close> is \<open>d\<close> for both.
\<close>

definition template :: "field \<Rightarrow> string" where
  "template v = (case v of Undefined \<Rightarrow> ''undefined'' | Null \<Rightarrow> ''null'' | Text s \<Rightarrow> s)"

definition coalesce :: "field \<Rightarrow> string \<Rightarrow> string" where
  "coalesce v d = (case v of Text s \<Rightarrow> s | _ \<Rightarrow> d)"

text \<open>
  Lines 91 to 105 of \<^verbatim>\<open>indexById\<close>: the write of the token row, reached with the device
  that was found or created.
\<close>

definition createMidi ::
  "'d DB \<Rightarrow> nat \<Rightarrow> address \<Rightarrow> MIDIMetadata \<Rightarrow> Device \<Rightarrow> 'd world
     \<Rightarrow> string option promise \<times> 'd world" where
  "createMidi db i operator metadata dev w =
     (let row = \<lparr>midi_id = i, midi_metadata = metadata, midi_device = device_id dev,
                 midi_createdBy = operator\<rparr>;
          r = midi_create db row (store w);
          w1 = emit (MidiCreate row (fst r)) (w\<lparr>store := snd r\<rparr>)
      in case fst r of
           Some error \<Rightarrow>
             (Resolved (Some (''failed creating midi: '' @ details error @ '' '' @ message error)),
              emit (Console (ErrorUpdatingMidiMetadata error)) w1)
         | None \<Rightarrow> (Resolved None, w1))"

text \<open>
  The body of \<^verbatim>\<open>indexById\<close>, lines 51 to 108. It resolves with \<^verbatim>\<open>{error}\<close>: \<open>None\<close> is
  \<^verbatim>\<open>{error: undefined}\<close>. \<^verbatim>\<open>!metadata\<close> holds for the undefined \<^verbatim>\<open>fetchMetadata\<close> returns
  and for a falsy body. Line 60 reads \<^verbatim>\<open>metadata.properties.device\<close>: without
  \<^verbatim>\<open>properties\<close> this throws, and the promise rejects; the test is false for an undefined
  and for an empty device.
\<close>

definition indexById_body ::
  "Fetch \<Rightarrow> 'd DB \<Rightarrow> nat \<Rightarrow> address \<Rightarrow> Contract \<Rightarrow> 'd world
     \<Rightarrow> string option promise \<times> 'd world" where
  "indexById_body fetch db i operator midiInstance w0 =
     (case fetchMetadata fetch i midiInstance w0 of
        (Rejected e, w) \<Rightarrow> (Rejected e, w)
      | (Resolved None, w) \<Rightarrow> (Resolved (Some ''failed fetching metadata''), w)
      | (Resolved (Some Falsy), w) \<Rightarrow> (Resolved (Some ''failed fetching metadata''), w)
      | (Resolved (Some (Document None)), w) \<Rightarrow> (Rejected TypeError, w)
      | (Resolved (Some (Document (Some properties))), w) \<Rightarrow>
          (case device properties of
             None \<Rightarrow> (Resolved (Some ''no metadata.properties.device property''), w)
           | Some name \<Rightarrow>
               if name = [] then
                 (Resolved (Some ''no metadata.properties.device property''), w)
               else
                 (let metadata = Document (Some properties);
                      found = devices_fetchByName db name (store w);
                      w1 = emit (DevicesFetchByName name found) w
                  in case found of
                    Some dev \<Rightarrow> createMidi db i operator metadata dev w1
                  | None \<Rightarrow>
                      (let manu = coalesce (manufacturer properties) [];
                           r = devices_create db name manu (store w1);
                           w2 = emit (DevicesCreate name manu (fst r)) (w1\<lparr>store := snd r\<rparr>)
                       in case fst r of
                            None \<Rightarrow>
                              (Resolved (Some (''creating device failed failed for ''
                                 @ template (manufacturer properties) @ '': '' @ name)),
                               emit (Console CreatingDeviceFailed) w2)
                          | Some createdDevice \<Rightarrow>
                              createMidi db i operator metadata createdDevice w2))))"

text \<open>
  \<^verbatim>\<open>indexById\<close>, lines 40 to 109. The call is written to the trace; then the body runs
  and what the promise settles with is written (\<open>runIndexById\<close>). An awaited call is all
  of this at the \<^verbatim>\<open>await\<close>. A call that is not awaited only starts where it stands: its
  body runs after the caller has returned (see \<open>sync_loop\<close>).
\<close>

definition runIndexById ::
  "Fetch \<Rightarrow> 'd DB \<Rightarrow> nat \<Rightarrow> address \<Rightarrow> Contract \<Rightarrow> 'd world
     \<Rightarrow> string option promise \<times> 'd world" where
  "runIndexById fetch db i operator midiInstance w =
     (let r = indexById_body fetch db i operator midiInstance w
      in (fst r, emit (IndexByIdReturn i (fst r)) (snd r)))"

definition indexById ::
  "Fetch \<Rightarrow> 'd DB \<Rightarrow> nat \<Rightarrow> address \<Rightarrow> Contract \<Rightarrow> 'd world
     \<Rightarrow> string option promise \<times> 'd world" where
  "indexById fetch db i operator midiInstance w0 =
     runIndexById fetch db i operator midiInstance (emit (IndexById i operator) w0)"

text \<open>
  \<^verbatim>\<open>fetchOriginalMinter\<close>, lines 111 to 142. \<^verbatim>\<open>find\<close> takes the first event whose
  \<^verbatim>\<open>args?.id\<close> is the id; an event without \<^verbatim>\<open>args\<close> never matches. The console line of
  line 137 is written when no event was found.
\<close>

definition fetchOriginalMinter ::
  "nat \<Rightarrow> Contract \<Rightarrow> 'd world \<Rightarrow> address option \<times> 'd world" where
  "fetchOriginalMinter i midiInstance w0 =
     (let w = emit (FetchOriginalMinter i) w0;
          transferFromSingleEvents = queryFilter midiInstance
      in case find (\<lambda>event. map_option arg_id (args event) = Some i) transferFromSingleEvents of
           None \<Rightarrow> (None, emit (Console TargetEventFound) w)
         | Some targetEvent \<Rightarrow> (map_option arg_operator (args targetEvent), w))"

text \<open>
  The loop of \<^verbatim>\<open>sync\<close>, lines 189 to 200. \<^verbatim>\<open>!operator\<close> holds for an undefined and for an
  empty operator; the \<^verbatim>\<open>return\<close> of line 196 leaves \<^verbatim>\<open>sync\<close>. The call of \<^verbatim>\<open>indexById\<close>
  in line 199 is not awaited and what it settles with is dropped: the call is started
  (its event is written) and the loop goes on at once. The bodies of the calls it
  \<open>started\<close> are run by \<open>settle\<close>, one after the other in the order of the calls, when
  \<^verbatim>\<open>sync\<close> has returned. This is one of the schedules the code allows (each body waits
  for the network at its first \<^verbatim>\<open>await\<close>); the statements on \<^verbatim>\<open>sync\<close> below are about the
  calls it makes and the lookups, which are the same in every schedule, or about runs
  with at most one call. A started call that rejects is caught by nobody; the model goes
  on with the calls that remain.
\<close>

fun settle ::
  "Fetch \<Rightarrow> 'd DB \<Rightarrow> Contract \<Rightarrow> (nat \<times> address) list \<Rightarrow> 'd world \<Rightarrow> 'd world" where
  "settle fetch db midiInstance [] w = w"
| "settle fetch db midiInstance ((i, operator) # started) w =
     settle fetch db midiInstance started (snd (runIndexById fetch db i operator midiInstance w))"

fun sync_loop ::
  "Fetch \<Rightarrow> 'd DB \<Rightarrow> Contract \<Rightarrow> nat list \<Rightarrow> (nat \<times> address) list \<Rightarrow> 'd world
     \<Rightarrow> 'd world" where
  "sync_loop fetch db midiInstance [] started w = settle fetch db midiInstance started w"
| "sync_loop fetch db midiInstance (i # rest) started w =
     (case fetchOriginalMinter i midiInstance w of
        (None, w1) \<Rightarrow>
          settle fetch db midiInstance started (emit (Console (FailedFetchingOperator i)) w1)
      | (Some operator, w1) \<Rightarrow>
          if operator = [] then
            settle fetch db midiInstance started (emit (Console (FailedFetchingOperator i)) w1)
          else sync_loop fetch db midiInstance rest (started @ [(i, operator)])
                 (emit (IndexById i operator) w1))"

text \<open>
  \<^verbatim>\<open>sync\<close>, lines 147 to 202. \<open>currentID\<close> is \<^verbatim>\<open>currentID.toNumber()\<close>; \<open>unqueueDiff\<close>
  is the list of that name, built in lines 157 and 167 to 184.
\<close>

definition unqueueDiff :: "nat \<Rightarrow> MidiRow list \<Rightarrow> QueueRow list \<Rightarrow> nat list" where
  "unqueueDiff currentID data queue =
     (let queueIDs = map queue_id queue;
          tokenIDs = map (\<lambda>i. i + 1) [0..<currentID];
          dbRowIDs = map midi_id data;
          diff = filter (\<lambda>i. i \<notin> set dbRowIDs) tokenIDs
      in filter (\<lambda>i. i \<notin> set queueIDs) diff)"

definition sync :: "Fetch \<Rightarrow> 'd DB \<Rightarrow> Contract \<Rightarrow> 'd world \<Rightarrow> 'd world" where
  "sync fetch db midiInstance w0 =
     (let currentID = currentTokenId midiInstance;
          w1 = emit MidiFetch w0;
          data = midi_fetch db (store w1);
          w2 = emit (QueueFetch 1000) w1;
          queue = queue_fetch db 1000 (store w2)
      in if currentID \<noteq> length data
         then sync_loop fetch db midiInstance (unqueueDiff currentID data queue) [] w2
         else w2)"

text \<open>
  The \<^verbatim>\<open>TransferSingle\<close> handler, lines 223 to 250. \<^verbatim>\<open>if (error)\<close> is false for an
  undefined and for an empty error. \<^verbatim>\<open>db.queue.create\<close> is not awaited; it is the
  handler's last statement, and runs when the handler has returned. \<open>logTransfer\<close> is the four \<^verbatim>\<open>console.log\<close> of lines 226 to 229.
\<close>

definition AddressZero :: address where
  "AddressZero = ''0x0000000000000000000000000000000000000000''"

definition db_queue_create :: "'d DB \<Rightarrow> nat \<Rightarrow> string \<Rightarrow> address \<Rightarrow> 'd world \<Rightarrow> 'd world" where
  "db_queue_create db i error operator w =
     emit (QueueCreate i error operator) (w\<lparr>store := queue_create db i error operator (store w)\<rparr>)"

definition logTransfer :: "address \<Rightarrow> address \<Rightarrow> address \<Rightarrow> nat \<Rightarrow> 'd world \<Rightarrow> 'd world" where
  "logTransfer operator from to i w =
     emit (Console (LogId i)) (emit (Console (LogTo to))
       (emit (Console (LogFrom from)) (emit (Console (LogOperator operator)) w)))"

definition onTransferSingle ::
  "Fetch \<Rightarrow> 'd DB \<Rightarrow> Contract \<Rightarrow> address \<Rightarrow> address \<Rightarrow> address \<Rightarrow> nat \<Rightarrow> 'd world
     \<Rightarrow> unit promise \<times> 'd world" where
  "onTransferSingle fetch db midiInstance operator from to i w0 =
     (let w = logTransfer operator from to i w0
      in if from = AddressZero then
           (case indexById fetch db i operator midiInstance w of
              (Rejected e, w1) \<Rightarrow> (Rejected e, w1)
            | (Resolved None, w1) \<Rightarrow> (Resolved (), w1)
            | (Resolved (Some error), w1) \<Rightarrow>
                if error = [] then (Resolved (), w1)
                else (Resolved (), db_queue_create db i error operator w1))
         else (Resolved (), w))"

text \<open>
  The queue drain, lines 255 to 283: the callback of the first \<^verbatim>\<open>setInterval\<close>. Each
  \<^verbatim>\<open>indexById\<close> and each \<^verbatim>\<open>db.queue.update\<close> is awaited inside the loop.
\<close>

definition db_queue_update :: "'d DB \<Rightarrow> nat \<Rightarrow> nat \<Rightarrow> string \<Rightarrow> 'd world \<Rightarrow> 'd world" where
  "db_queue_update db i n error w =
     emit (QueueUpdate i n error) (w\<lparr>store := queue_update db i n error (store w)\<rparr>)"



section \<open>Reading a trace\<close>

text \<open>
  The events a run added to the trace, and the views of a trace the statements below use:
  the calls of \<^verbatim>\<open>indexById\<close> and what they settled with, the lookups of a minter, the
  calls of \<^verbatim>\<open>db.devices.fetchByName\<close>, \<^verbatim>\<open>db.devices.create\<close> and \<^verbatim>\<open>db.midi.create\<close> with
  their answers, the devices found or created, the Device Records and Token Records the database reported
  as created, all calls on \<^verbatim>\<open>db\<close>, the calls on \<^verbatim>\<open>db.queue\<close> that write, and the console.
\<close>

definition news :: "'d world \<Rightarrow> 'd world \<Rightarrow> event list" where
  "news w w' = drop (length (trace w)) (trace w')"

definition indexed :: "event list \<Rightarrow> (nat \<times> address) list" where
  "indexed t = concat (map (\<lambda>e. case e of IndexById i operator \<Rightarrow> [(i, operator)] | _ \<Rightarrow> []) t)"

definition returns :: "event list \<Rightarrow> (nat \<times> string option promise) list" where
  "returns t = concat (map (\<lambda>e. case e of IndexByIdReturn i r \<Rightarrow> [(i, r)] | _ \<Rightarrow> []) t)"

definition lookups :: "event list \<Rightarrow> nat list" where
  "lookups t = concat (map (\<lambda>e. case e of FetchOriginalMinter i \<Rightarrow> [i] | _ \<Rightarrow> []) t)"

definition device_lookups :: "event list \<Rightarrow> (string \<times> Device option) list" where
  "device_lookups t =
     concat (map (\<lambda>e. case e of DevicesFetchByName name found \<Rightarrow> [(name, found)] | _ \<Rightarrow> []) t)"

definition device_creates :: "event list \<Rightarrow> (string \<times> string \<times> Device option) list" where
  "device_creates t =
     concat (map (\<lambda>e. case e of DevicesCreate name manu created \<Rightarrow> [(name, manu, created)]
                              | _ \<Rightarrow> []) t)"

definition midi_creates :: "event list \<Rightarrow> (MidiRow \<times> PostgrestError option) list" where
  "midi_creates t =
     concat (map (\<lambda>e. case e of MidiCreate row error \<Rightarrow> [(row, error)] | _ \<Rightarrow> []) t)"

definition resolved_devices :: "event list \<Rightarrow> Device list" where
  "resolved_devices t =
     concat (map (\<lambda>(name, found). case found of Some d \<Rightarrow> [d] | None \<Rightarrow> []) (device_lookups t))
     @ concat (map (\<lambda>(name, manu, created). case created of Some d \<Rightarrow> [d] | None \<Rightarrow> [])
         (device_creates t))"

definition created_devices :: "event list \<Rightarrow> Device list" where
  "created_devices t =
     concat (map (\<lambda>(name, manu, created). case created of Some d \<Rightarrow> [d] | None \<Rightarrow> [])
       (device_creates t))"

definition created_tokens :: "event list \<Rightarrow> MidiRow list" where
  "created_tokens t =
     concat (map (\<lambda>(row, error). case error of None \<Rightarrow> [row] | Some e \<Rightarrow> []) (midi_creates t))"

fun is_db_call :: "event \<Rightarrow> bool" where
  "is_db_call (Console l) = False"
| "is_db_call (IndexById i operator) = False"
| "is_db_call (IndexByIdReturn i r) = False"
| "is_db_call (FetchOriginalMinter i) = False"
| "is_db_call e = True"

definition db_calls :: "event list \<Rightarrow> event list" where
  "db_calls t = filter is_db_call t"

fun is_queue_write :: "event \<Rightarrow> bool" where
  "is_queue_write (QueueCreate i error operator) = True"
| "is_queue_write (QueueUpdate i n error) = True"
| "is_queue_write e = False"

definition queue_writes :: "event list \<Rightarrow> event list" where
  "queue_writes t = filter is_queue_write t"

text \<open>
  What a call on \<^verbatim>\<open>db\<close> that the trace holds does to the store: \<open>replay\<close> makes the
  call again. A run whose store is the \<open>fold\<close> of \<open>replay\<close> over the events it added
  has made each write its trace shows, in that order, and no other.
\<close>

fun replay :: "'d DB \<Rightarrow> event \<Rightarrow> 'd \<Rightarrow> 'd" where
  "replay db (DevicesCreate name manu created) s = snd (devices_create db name manu s)"
| "replay db (MidiCreate row error) s = snd (midi_create db row s)"
| "replay db (QueueCreate i error operator) s = queue_create db i error operator s"
| "replay db (QueueUpdate i n error) s = queue_update db i n error s"
| "replay db e s = s"



section \<open>A database to run the functions on\<close>

text \<open>
  Modelled from the spec: the database object of \<^verbatim>\<open>./db\<close> and \<^verbatim>\<open>./supabase\<close>, which are not
  among the sources. Section 3 and section 4.3 of the spec give the tables and the
  queue's methods: \<^verbatim>\<open>enqueue\<close> "inserts a new entry with attempt count initialized to 0"
  ("source behavior always inserts"), \<^verbatim>\<open>fetchBatch(limit)\<close> "returns up to limit entries",
  \<^verbatim>\<open>update\<close> "records a further failed attempt"; devices are looked up "by exact name
  match"; a create either fails and writes nothing or adds its row. Which creates fail
  is not the model's choice: \<open>device_fault\<close> and \<open>midi_fault\<close> say so, per store and
  argument.
\<close>

record Store =
  device_rows :: "Device list"
  midi_rows :: "MidiRow list"
  queue_rows :: "QueueRow list"

record Faults =
  device_fault :: "Store \<Rightarrow> string \<Rightarrow> bool"
  midi_fault :: "Store \<Rightarrow> MidiRow \<Rightarrow> PostgrestError option"

definition model_db :: "Faults \<Rightarrow> Store DB" where
  "model_db faults =
     \<lparr>devices_fetchByName = (\<lambda>name st. find (\<lambda>d. device_name d = name) (device_rows st)),
      devices_create = (\<lambda>name manu st.
         if device_fault faults st name then (None, st)
         else (let d = \<lparr>device_id = Suc (length (device_rows st)), device_name = name,
                        device_manufacturer = manu\<rparr>
               in (Some d, st\<lparr>device_rows := device_rows st @ [d]\<rparr>))),
      midi_create = (\<lambda>row st.
         case midi_fault faults st row of
           Some error \<Rightarrow> (Some error, st)
         | None \<Rightarrow> (None, st\<lparr>midi_rows := midi_rows st @ [row]\<rparr>)),
      midi_fetch = midi_rows,
      queue_fetch = (\<lambda>limit st. take limit (queue_rows st)),
      queue_create = (\<lambda>i error operator st.
         st\<lparr>queue_rows := queue_rows st @ [\<lparr>queue_id = i, queue_operator = operator,
                                    queue_attempts = 0, queue_error = error\<rparr>]\<rparr>),
      queue_update = (\<lambda>i n error st.
         st\<lparr>queue_rows := map (\<lambda>r. if queue_id r = i
                                then r\<lparr>queue_attempts := n, queue_error := error\<rparr> else r)
                         (queue_rows st)\<rparr>)\<rparr>"

definition no_faults :: Faults where
  "no_faults = \<lparr>device_fault = (\<lambda>st name. False), midi_fault = (\<lambda>st row. None)\<rparr>"

definition device_fault_always :: Faults where
  "device_fault_always = \<lparr>device_fault = (\<lambda>st name. True), midi_fault = (\<lambda>st row. None)\<rparr>"

definition write_fault_for :: "nat \<Rightarrow> Faults" where
  "write_fault_for i =
     \<lparr>device_fault = (\<lambda>st name. False),
      midi_fault = (\<lambda>st row. if midi_id row = i
                                then Some \<lparr>details = ''23505'', message = ''duplicate key''\<rparr>
                                else None)\<rparr>"

definition write_fault :: Faults where
  "write_fault = \<lparr>device_fault = (\<lambda>st name. False),
                  midi_fault = (\<lambda>st row. Some \<lparr>details = ''23505'', message = ''duplicate key''\<rparr>)\<rparr>"

section \<open>Notions the statements use\<close>

text \<open>
  A world \<open>w'\<close> grows from \<open>w\<close> when its trace continues the trace of \<open>w\<close>. The events
  between the call and the return of one \<^verbatim>\<open>indexById\<close> are console lines and calls on
  \<^verbatim>\<open>db.devices\<close> and \<^verbatim>\<open>db.midi\<close>.
\<close>

definition grows :: "'d world \<Rightarrow> 'd world \<Rightarrow> bool" where
  "grows w w' = (trace w' = trace w @ news w w')"

fun in_body :: "event \<Rightarrow> bool" where
  "in_body (Console l) = True"
| "in_body (DevicesFetchByName name found) = True"
| "in_body (DevicesCreate name manu created) = True"
| "in_body (MidiCreate row error) = True"
| "in_body e = False"

text \<open>
  The operator \<^verbatim>\<open>fetchOriginalMinter\<close> gives for an id (it reads the contract only), and
  whether \<^verbatim>\<open>sync\<close> goes on with it: \<^verbatim>\<open>!operator\<close> is false.
\<close>

definition originalMinter :: "Contract \<Rightarrow> nat \<Rightarrow> address option" where
  "originalMinter midiInstance i =
     fst (fetchOriginalMinter i midiInstance \<lparr>store = (), trace = []\<rparr>)"

definition hasMinter :: "Contract \<Rightarrow> nat \<Rightarrow> bool" where
  "hasMinter midiInstance i =
     (case originalMinter midiInstance i of None \<Rightarrow> False | Some operator \<Rightarrow> operator \<noteq> [])"

definition minterOf :: "Contract \<Rightarrow> nat \<Rightarrow> nat \<times> address" where
  "minterOf mi i = (i, case originalMinter mi i of None \<Rightarrow> [] | Some operator \<Rightarrow> operator)"

text \<open>The address \<^verbatim>\<open>fetchMetadata\<close> fetches for a uri.\<close>

definition gateway :: "string \<Rightarrow> string" where
  "gateway u = replace ''ipfs://'' ''https://nftstorage.link/ipfs/'' u"

section \<open>Concrete inputs\<close>

definition mint :: "nat \<Rightarrow> address \<Rightarrow> Event" where
  "mint i operator = \<lparr>args = Some \<lparr>arg_operator = operator, arg_id = i\<rparr>\<rparr>"

definition chain :: "nat \<Rightarrow> Event list \<Rightarrow> Contract" where
  "chain n evs = \<lparr>uri = (\<lambda>i. Some ''ipfs://a''), currentTokenId = n, queryFilter = evs\<rparr>"

definition serve :: "Response \<Rightarrow> Fetch" where
  "serve res = (\<lambda>u. if u = ''https://nftstorage.link/ipfs/a'' then Some res else None)"

definition juno :: MIDIMetadata where
  "juno = Document (Some \<lparr>device = Some ''Juno'', manufacturer = Text ''Roland''\<rparr>)"

definition nameless :: MIDIMetadata where
  "nameless = Document (Some \<lparr>device = None, manufacturer = Text ''Roland''\<rparr>)"

definition bare :: MIDIMetadata where
  "bare = Document None"

definition unreachable :: Fetch where
  "unreachable = (\<lambda>u. None)"

definition token :: "nat \<Rightarrow> MidiRow" where
  "token i = \<lparr>midi_id = i, midi_metadata = juno, midi_device = 1, midi_createdBy = ''0xA''\<rparr>"

definition entry :: "nat \<Rightarrow> QueueRow" where
  "entry i = \<lparr>queue_id = i, queue_operator = ''0xA'', queue_attempts = 0,
              queue_error = ''failed fetching metadata''\<rparr>"

definition world_of :: "MidiRow list \<Rightarrow> QueueRow list \<Rightarrow> Store world" where
  "world_of rows q = \<lparr>store = \<lparr>device_rows = [], midi_rows = rows, queue_rows = q\<rparr>, trace = []\<rparr>"

section \<open>Traces\<close>

lemma store_emit [simp]: "store (emit e w) = store w"
  by (simp add: emit_def)

lemma trace_emit [simp]: "trace (emit e w) = trace w @ [e]"
  by (simp add: emit_def)

lemma news_same [simp]: "news w w = []"
  by (simp add: news_def)

lemma news_app: "trace w' = trace w @ es \<Longrightarrow> news w w' = es"
  by (simp add: news_def)

lemma grows_same [simp]: "grows w w"
  by (simp add: grows_def)

lemma growsI: "trace w' = trace w @ es \<Longrightarrow> grows w w'"
  by (simp add: grows_def news_def)

lemma growsD: "grows w w' \<Longrightarrow> trace w' = trace w @ news w w'"
  by (simp add: grows_def)

lemma grows_trans:
  assumes "grows w w'" and "grows w' w''"
  shows "grows w w''" and "news w w'' = news w w' @ news w' w''"
proof -
  have "trace w'' = trace w @ (news w w' @ news w' w'')"
    using growsD [OF assms(1)] growsD [OF assms(2)] by simp
  then show "grows w w''" and "news w w'' = news w w' @ news w' w''"
    by (rule growsI, rule news_app)
qed

lemma grows_emit:
  assumes "grows w w'"
  shows "grows w (emit e w')" and "news w (emit e w') = news w w' @ [e]"
proof -
  have "trace (emit e w') = trace w @ (news w w' @ [e])"
    using growsD [OF assms] by simp
  then show "grows w (emit e w')" and "news w (emit e w') = news w w' @ [e]"
    by (rule growsI, rule news_app)
qed

lemma indexed_simps [simp]:
  "indexed [] = []"
  "indexed (a @ b) = indexed a @ indexed b"
  "indexed (IndexById i operator # t) = (i, operator) # indexed t"
  "indexed (Console l # t) = indexed t"
  "indexed (IndexByIdReturn i r # t) = indexed t"
  "indexed (FetchOriginalMinter i # t) = indexed t"
  "indexed (MidiFetch # t) = indexed t"
  "indexed (QueueFetch n # t) = indexed t"
  "indexed (QueueCreate i error operator # t) = indexed t"
  "indexed (QueueUpdate i n error # t) = indexed t"
  by (simp_all add: indexed_def)

lemma returns_simps [simp]:
  "returns [] = []"
  "returns (a @ b) = returns a @ returns b"
  "returns (IndexByIdReturn i r # t) = (i, r) # returns t"
  "returns (IndexById i operator # t) = returns t"
  "returns (Console l # t) = returns t"
  "returns (FetchOriginalMinter i # t) = returns t"
  "returns (MidiFetch # t) = returns t"
  "returns (QueueFetch n # t) = returns t"
  "returns (QueueCreate i error operator # t) = returns t"
  "returns (QueueUpdate i n error # t) = returns t"
  by (simp_all add: returns_def)

lemma lookups_simps [simp]:
  "lookups [] = []"
  "lookups (a @ b) = lookups a @ lookups b"
  "lookups (FetchOriginalMinter i # t) = i # lookups t"
  "lookups (IndexById i operator # t) = lookups t"
  "lookups (Console l # t) = lookups t"
  "lookups (IndexByIdReturn i r # t) = lookups t"
  "lookups (MidiFetch # t) = lookups t"
  "lookups (QueueFetch n # t) = lookups t"
  by (simp_all add: lookups_def)

lemma db_calls_simps [simp]:
  "db_calls [] = []"
  "db_calls (a @ b) = db_calls a @ db_calls b"
  "db_calls (e # t) = (if is_db_call e then e # db_calls t else db_calls t)"
  by (simp_all add: db_calls_def)

lemma queue_writes_simps [simp]:
  "queue_writes [] = []"
  "queue_writes (a @ b) = queue_writes a @ queue_writes b"
  "queue_writes (e # t) = (if is_queue_write e then e # queue_writes t else queue_writes t)"
  by (simp_all add: queue_writes_def)

lemma body_indexed: "list_all in_body es \<Longrightarrow> indexed es = []"
proof (induction es)
  case Nil
  show ?case by simp
next
  case (Cons e es)
  then show ?case by (cases e) (simp_all add: indexed_def)
qed

lemma grows_store [simp]: "grows w (w'\<lparr>store := st\<rparr>) = grows w w'"
  by (simp add: grows_def news_def)

lemma news_store [simp]: "news w (w'\<lparr>store := st\<rparr>) = news w w'"
  by (simp add: news_def)

lemma grows_emit_same [simp]: "grows w (emit e w)"
  by (rule grows_emit(1)) simp

lemma news_emit_same [simp]: "news w (emit e w) = [e]"
  using grows_emit(2) [of w w e] by simp

lemma body_returns: "list_all in_body es \<Longrightarrow> returns es = []"
proof (induction es)
  case Nil
  show ?case by simp
next
  case (Cons e es)
  then show ?case by (cases e) (simp_all add: returns_def)
qed

lemma body_lookups: "list_all in_body es \<Longrightarrow> lookups es = []"
proof (induction es)
  case Nil
  show ?case by simp
next
  case (Cons e es)
  then show ?case by (cases e) (simp_all add: lookups_def)
qed

lemma body_queue_writes: "list_all in_body es \<Longrightarrow> queue_writes es = []"
proof (induction es)
  case Nil
  show ?case by simp
next
  case (Cons e es)
  then show ?case by (cases e) simp_all
qed

section \<open>fetchMetadata and indexById\<close>

lemma fetchMetadata_store [simp]: "store (snd (fetchMetadata fetch i mi w)) = store w"
  by (simp add: fetchMetadata_def Let_def split: option.splits)

lemma fetchMetadata_grows:
  "grows w (snd (fetchMetadata fetch i mi w))"
  "list_all in_body (news w (snd (fetchMetadata fetch i mi w)))"
  "db_calls (news w (snd (fetchMetadata fetch i mi w))) = []"
  by (simp_all add: fetchMetadata_def Let_def split: option.splits)

lemma createMidi_grows:
  "grows w (snd (createMidi db i operator metadata dev w))"
  "list_all in_body (news w (snd (createMidi db i operator metadata dev w)))"
  by (simp_all add: createMidi_def Let_def grows_emit split: option.splits)

lemma createMidi_error:
  "fst (createMidi db i operator metadata dev w) = Resolved (Some e) \<Longrightarrow> e \<noteq> []"
  by (auto simp: createMidi_def Let_def split: option.splits)

lemma indexById_body_grows:
  "grows w (snd (indexById_body fetch db i operator mi w))"
  "list_all in_body (news w (snd (indexById_body fetch db i operator mi w)))"
  by (simp_all add: indexById_body_def fetchMetadata_def createMidi_def Let_def grows_def
      news_def split: option.splits prod.splits promise.splits MIDIMetadata.splits)

lemma indexById_body_error:
  "fst (indexById_body fetch db i operator mi w) = Resolved (Some e) \<Longrightarrow> e \<noteq> []"
  by (auto simp: indexById_body_def Let_def dest: createMidi_error
      split: option.splits prod.splits promise.splits if_splits MIDIMetadata.splits)

lemma runIndexById_fst:
  "fst (runIndexById fetch db i operator mi w) = fst (indexById_body fetch db i operator mi w)"
  by (simp add: runIndexById_def Let_def)

lemma runIndexById_store:
  "store (snd (runIndexById fetch db i operator mi w)) =
     store (snd (indexById_body fetch db i operator mi w))"
  by (simp add: runIndexById_def Let_def)

lemma runIndexById_news:
  "grows w (snd (runIndexById fetch db i operator mi w))"
  "news w (snd (runIndexById fetch db i operator mi w)) =
     news w (snd (indexById_body fetch db i operator mi w))
       @ [IndexByIdReturn i (fst (runIndexById fetch db i operator mi w))]"
proof -
  let ?r = "indexById_body fetch db i operator mi w"
  have "trace (snd ?r) = trace w @ news w (snd ?r)"
    by (rule growsD) (rule indexById_body_grows)
  then have "trace (snd (runIndexById fetch db i operator mi w)) =
      trace w @ (news w (snd ?r) @ [IndexByIdReturn i (fst (runIndexById fetch db i operator mi w))])"
    by (simp add: runIndexById_def Let_def)
  then show "grows w (snd (runIndexById fetch db i operator mi w))"
    and "news w (snd (runIndexById fetch db i operator mi w)) =
     news w (snd ?r) @ [IndexByIdReturn i (fst (runIndexById fetch db i operator mi w))]"
    by (rule growsI, rule news_app)
qed

lemma runIndexById_views:
  "indexed (news w (snd (runIndexById fetch db i operator mi w))) = []"
  "returns (news w (snd (runIndexById fetch db i operator mi w))) =
     [(i, fst (runIndexById fetch db i operator mi w))]"
  "lookups (news w (snd (runIndexById fetch db i operator mi w))) = []"
  "queue_writes (news w (snd (runIndexById fetch db i operator mi w))) = []"
  by (simp_all add: runIndexById_news(2) body_indexed body_returns body_lookups
      body_queue_writes indexById_body_grows(2))

lemma indexById_fst:
  "fst (indexById fetch db i operator mi w) =
     fst (indexById_body fetch db i operator mi (emit (IndexById i operator) w))"
  by (simp add: indexById_def runIndexById_fst)

lemma indexById_error:
  "fst (indexById fetch db i operator mi w) = Resolved (Some e) \<Longrightarrow> e \<noteq> []"
  by (simp add: indexById_fst indexById_body_error)

lemma indexById_store:
  "store (snd (indexById fetch db i operator mi w)) =
     store (snd (indexById_body fetch db i operator mi (emit (IndexById i operator) w)))"
  by (simp add: indexById_def runIndexById_store)

lemma indexById_news:
  "grows w (snd (indexById fetch db i operator mi w))"
  "news w (snd (indexById fetch db i operator mi w)) =
     IndexById i operator
       # news (emit (IndexById i operator) w)
           (snd (indexById_body fetch db i operator mi (emit (IndexById i operator) w)))
       @ [IndexByIdReturn i (fst (indexById fetch db i operator mi w))]"
proof -
  let ?w1 = "emit (IndexById i operator) w"
  have g: "grows w (snd (runIndexById fetch db i operator mi ?w1))"
    and n: "news w (snd (runIndexById fetch db i operator mi ?w1)) =
      news w ?w1 @ news ?w1 (snd (runIndexById fetch db i operator mi ?w1))"
    by (rule grows_trans [OF grows_emit_same runIndexById_news(1)])+
  show "grows w (snd (indexById fetch db i operator mi w))"
    using g by (simp add: indexById_def)
  show "news w (snd (indexById fetch db i operator mi w)) =
     IndexById i operator
       # news ?w1 (snd (indexById_body fetch db i operator mi ?w1))
       @ [IndexByIdReturn i (fst (indexById fetch db i operator mi w))]"
    using n by (simp add: indexById_def runIndexById_news(2))
qed

lemma indexById_indexed:
  "indexed (news w (snd (indexById fetch db i operator mi w))) = [(i, operator)]"
  by (simp add: indexById_news(2) body_indexed indexById_body_grows(2))


lemma indexById_lookups:
  "lookups (news w (snd (indexById fetch db i operator mi w))) = []"
  by (simp add: indexById_news(2) body_lookups indexById_body_grows(2))


section \<open>The runs of indexById\<close>

text \<open>
  Every run of \<^verbatim>\<open>indexById\<close>, by what the contract, the gateway and the database
  answered: what the promise settles with, the store and the trace it leaves.
\<close>

lemma indexById_cases [case_names rpc network not_ok not_json falsy no_properties missing
    found create_failed created]:
  fixes fetch :: Fetch and db :: "'d DB" and i operator mi and w :: "'d world"
  defines "R \<equiv> indexById fetch db i operator mi w"
  obtains
    (rpc) "uri mi i = None"
      "R = (Rejected RpcError,
            w\<lparr>trace := trace w @ [IndexById i operator, IndexByIdReturn i (Rejected RpcError)]\<rparr>)"
  | (network) u0 where "uri mi i = Some u0" "fetch (gateway u0) = None"
      "R = (Rejected NetworkError,
            w\<lparr>trace := trace w @ [IndexById i operator, IndexByIdReturn i (Rejected NetworkError)]\<rparr>)"
  | (not_ok) u0 res where "uri mi i = Some u0" "fetch (gateway u0) = Some res" "\<not> ok res"
      "R = (Resolved (Some ''failed fetching metadata''),
            w\<lparr>trace := trace w @ [IndexById i operator, Console (ErrorFetching (gateway u0)),
               IndexByIdReturn i (Resolved (Some ''failed fetching metadata''))]\<rparr>)"
  | (not_json) u0 res where "uri mi i = Some u0" "fetch (gateway u0) = Some res" "ok res"
      "json res = None"
      "R = (Rejected SyntaxError,
            w\<lparr>trace := trace w @ [IndexById i operator, IndexByIdReturn i (Rejected SyntaxError)]\<rparr>)"
  | (falsy) u0 res where "uri mi i = Some u0" "fetch (gateway u0) = Some res" "ok res"
      "json res = Some Falsy"
      "R = (Resolved (Some ''failed fetching metadata''),
            w\<lparr>trace := trace w @ [IndexById i operator, Console (MetadataIs Falsy),
               IndexByIdReturn i (Resolved (Some ''failed fetching metadata''))]\<rparr>)"
  | (no_properties) u0 res where "uri mi i = Some u0" "fetch (gateway u0) = Some res" "ok res"
      "json res = Some (Document None)"
      "R = (Rejected TypeError,
            w\<lparr>trace := trace w @ [IndexById i operator, Console (MetadataIs (Document None)),
               IndexByIdReturn i (Rejected TypeError)]\<rparr>)"
  | (missing) u0 res props where "uri mi i = Some u0" "fetch (gateway u0) = Some res" "ok res"
      "json res = Some (Document (Some props))"
      "device props = None \<or> device props = Some []"
      "R = (Resolved (Some ''no metadata.properties.device property''),
            w\<lparr>trace := trace w @ [IndexById i operator, Console (MetadataIs (Document (Some props))),
               IndexByIdReturn i (Resolved (Some ''no metadata.properties.device property''))]\<rparr>)"
  | (found) u0 res props name dev row e out where
      "uri mi i = Some u0" "fetch (gateway u0) = Some res" "ok res"
      "json res = Some (Document (Some props))" "device props = Some name" "name \<noteq> []"
      "devices_fetchByName db name (store w) = Some dev"
      "row = \<lparr>midi_id = i, midi_metadata = Document (Some props), midi_device = device_id dev,
              midi_createdBy = operator\<rparr>"
      "e = fst (midi_create db row (store w))"
      "out = (case e of None \<Rightarrow> Resolved None
              | Some error \<Rightarrow> Resolved (Some (''failed creating midi: '' @ details error @ '' ''
                    @ message error)))"
      "R = (out,
            w\<lparr>store := snd (midi_create db row (store w)),
              trace := trace w @ [IndexById i operator, Console (MetadataIs (Document (Some props))),
                DevicesFetchByName name (Some dev), MidiCreate row e]
                @ (case e of None \<Rightarrow> [] | Some error \<Rightarrow> [Console (ErrorUpdatingMidiMetadata error)])
                @ [IndexByIdReturn i out]\<rparr>)"
  | (create_failed) u0 res props name manu out where
      "uri mi i = Some u0" "fetch (gateway u0) = Some res" "ok res"
      "json res = Some (Document (Some props))" "device props = Some name" "name \<noteq> []"
      "devices_fetchByName db name (store w) = None"
      "manu = coalesce (manufacturer props) []"
      "fst (devices_create db name manu (store w)) = None"
      "out = Resolved (Some (''creating device failed failed for ''
                 @ template (manufacturer props) @ '': '' @ name))"
      "R = (out,
            w\<lparr>store := snd (devices_create db name manu (store w)),
              trace := trace w @ [IndexById i operator, Console (MetadataIs (Document (Some props))),
                DevicesFetchByName name None, DevicesCreate name manu None,
                Console CreatingDeviceFailed, IndexByIdReturn i out]\<rparr>)"
  | (created) u0 res props name manu dev row e out where
      "uri mi i = Some u0" "fetch (gateway u0) = Some res" "ok res"
      "json res = Some (Document (Some props))" "device props = Some name" "name \<noteq> []"
      "devices_fetchByName db name (store w) = None"
      "manu = coalesce (manufacturer props) []"
      "fst (devices_create db name manu (store w)) = Some dev"
      "row = \<lparr>midi_id = i, midi_metadata = Document (Some props), midi_device = device_id dev,
              midi_createdBy = operator\<rparr>"
      "e = fst (midi_create db row (snd (devices_create db name manu (store w))))"
      "out = (case e of None \<Rightarrow> Resolved None
              | Some error \<Rightarrow> Resolved (Some (''failed creating midi: '' @ details error @ '' ''
                    @ message error)))"
      "R = (out,
            w\<lparr>store := snd (midi_create db row (snd (devices_create db name manu (store w)))),
              trace := trace w @ [IndexById i operator, Console (MetadataIs (Document (Some props))),
                DevicesFetchByName name None, DevicesCreate name manu (Some dev), MidiCreate row e]
                @ (case e of None \<Rightarrow> [] | Some error \<Rightarrow> [Console (ErrorUpdatingMidiMetadata error)])
                @ [IndexByIdReturn i out]\<rparr>)"
proof -
  note run = R_def indexById_def runIndexById_def indexById_body_def fetchMetadata_def
    gateway_def Let_def emit_def
  show thesis
  proof (cases "uri mi i")
    case None
    then have "R = (Rejected RpcError,
        w\<lparr>trace := trace w @ [IndexById i operator, IndexByIdReturn i (Rejected RpcError)]\<rparr>)"
      by (simp add: run)
    with None show thesis by (rule rpc)
  next
    case u0: (Some u0)
    show thesis
    proof (cases "fetch (gateway u0)")
      case None
      with u0 have "R = (Rejected NetworkError,
          w\<lparr>trace := trace w @ [IndexById i operator, IndexByIdReturn i (Rejected NetworkError)]\<rparr>)"
        by (simp add: run)
      with u0 None show thesis by (rule network)
    next
      case res: (Some res)
      show thesis
      proof (cases "ok res")
        case False
        with u0 res have "R = (Resolved (Some ''failed fetching metadata''),
            w\<lparr>trace := trace w @ [IndexById i operator, Console (ErrorFetching (gateway u0)),
               IndexByIdReturn i (Resolved (Some ''failed fetching metadata''))]\<rparr>)"
          by (simp add: run)
        with u0 res False show thesis by (rule not_ok)
      next
        case ok: True
        show thesis
        proof (cases "json res")
          case None
          with u0 res ok have "R = (Rejected SyntaxError,
              w\<lparr>trace := trace w @ [IndexById i operator, IndexByIdReturn i (Rejected SyntaxError)]\<rparr>)"
            by (simp add: run)
          with u0 res ok None show thesis by (rule not_json)
        next
          case md: (Some md)
          show thesis
          proof (cases md)
            case Falsy
            with md have j: "json res = Some Falsy" by simp
            with u0 res ok have "R = (Resolved (Some ''failed fetching metadata''),
                w\<lparr>trace := trace w @ [IndexById i operator, Console (MetadataIs Falsy),
                   IndexByIdReturn i (Resolved (Some ''failed fetching metadata''))]\<rparr>)"
              by (simp add: run)
            with u0 res ok j show thesis by (rule falsy)
          next
            case (Document p)
            show thesis
            proof (cases p)
              case None
              with md Document have j: "json res = Some (Document None)" by simp
              with u0 res ok have "R = (Rejected TypeError,
                  w\<lparr>trace := trace w @ [IndexById i operator, Console (MetadataIs (Document None)),
                     IndexByIdReturn i (Rejected TypeError)]\<rparr>)"
                by (simp add: run)
              with u0 res ok j show thesis by (rule no_properties)
            next
              case (Some props)
              with md Document have j: "json res = Some (Document (Some props))" by simp
              show thesis
              proof (cases "device props = None \<or> device props = Some []")
                case True
                with u0 res ok j have "R = (Resolved (Some ''no metadata.properties.device property''),
                    w\<lparr>trace := trace w @ [IndexById i operator,
                       Console (MetadataIs (Document (Some props))),
                       IndexByIdReturn i (Resolved (Some ''no metadata.properties.device property''))]\<rparr>)"
                  by (auto simp: run)
                with u0 res ok j True show thesis by (rule missing)
              next
                case False
                then obtain name where name: "device props = Some name" "name \<noteq> []"
                  by (cases "device props") auto
                define manu where "manu = coalesce (manufacturer props) []"
                show thesis
                proof (cases "devices_fetchByName db name (store w)")
                  case (Some dev)
                  define row where "row = \<lparr>midi_id = i, midi_metadata = Document (Some props),
                    midi_device = device_id dev, midi_createdBy = operator\<rparr>"
                  define e where "e = fst (midi_create db row (store w))"
                  define out where "out = (case e of None \<Rightarrow> Resolved None
                    | Some error \<Rightarrow> Resolved (Some (''failed creating midi: '' @ details error @ '' ''
                          @ message error)))"
                  have "R = (out,
                      w\<lparr>store := snd (midi_create db row (store w)),
                        trace := trace w @ [IndexById i operator,
                          Console (MetadataIs (Document (Some props))),
                          DevicesFetchByName name (Some dev), MidiCreate row e]
                          @ (case e of None \<Rightarrow> []
                             | Some error \<Rightarrow> [Console (ErrorUpdatingMidiMetadata error)])
                          @ [IndexByIdReturn i out]\<rparr>)"
                    using u0 res ok j name Some
                    by (cases "fst (midi_create db row (store w))")
                      (simp_all add: run createMidi_def out_def e_def row_def)
                  with u0 res ok j name Some row_def e_def out_def show thesis by (rule found)
                next
                  case None
                  show thesis
                  proof (cases "fst (devices_create db name manu (store w))")
                    case none: None
                    define out where "out = (Resolved (Some (''creating device failed failed for ''
                       @ template (manufacturer props) @ '': '' @ name)) :: string option promise)"
                    have "R = (out,
                        w\<lparr>store := snd (devices_create db name manu (store w)),
                          trace := trace w @ [IndexById i operator,
                            Console (MetadataIs (Document (Some props))),
                            DevicesFetchByName name None, DevicesCreate name manu None,
                            Console CreatingDeviceFailed, IndexByIdReturn i out]\<rparr>)"
                      using u0 res ok j name None none
                      by (simp add: run out_def manu_def)
                    with u0 res ok j name None manu_def none out_def show thesis
                      by (rule create_failed)
                  next
                    case (Some dev)
                    define row where "row = \<lparr>midi_id = i, midi_metadata = Document (Some props),
                      midi_device = device_id dev, midi_createdBy = operator\<rparr>"
                    define e where
                      "e = fst (midi_create db row (snd (devices_create db name manu (store w))))"
                    define out where "out = (case e of None \<Rightarrow> Resolved None
                      | Some error \<Rightarrow> Resolved (Some (''failed creating midi: '' @ details error
                            @ '' '' @ message error)))"
                    have "R = (out,
                        w\<lparr>store := snd (midi_create db row (snd (devices_create db name manu (store w)))),
                          trace := trace w @ [IndexById i operator,
                            Console (MetadataIs (Document (Some props))),
                            DevicesFetchByName name None, DevicesCreate name manu (Some dev),
                            MidiCreate row e]
                            @ (case e of None \<Rightarrow> []
                               | Some error \<Rightarrow> [Console (ErrorUpdatingMidiMetadata error)])
                            @ [IndexByIdReturn i out]\<rparr>)"
                      using u0 res ok j name None Some
                      by (cases "fst (midi_create db row (snd (devices_create db name manu (store w))))")
                        (simp_all add: run createMidi_def out_def e_def row_def manu_def)
                    with u0 res ok j name None manu_def Some row_def e_def out_def show thesis
                      by (rule created)
                  qed
                qed
              qed
            qed
          qed
        qed
      qed
    qed
  qed
qed

section \<open>The TransferSingle handler\<close>

lemma logTransfer_eq:
  "logTransfer operator from to i w =
     w\<lparr>trace := trace w @ [Console (LogOperator operator), Console (LogFrom from),
                            Console (LogTo to), Console (LogId i)]\<rparr>"
  by (simp add: logTransfer_def emit_def)

lemma logTransfer_grows [simp]:
  "store (logTransfer operator from to i w) = store w"
  "grows w (logTransfer operator from to i w)"
  "news w (logTransfer operator from to i w) =
     [Console (LogOperator operator), Console (LogFrom from), Console (LogTo to),
      Console (LogId i)]"
  by (simp_all add: logTransfer_def grows_emit)

lemma db_queue_create_grows [simp]:
  "grows w (db_queue_create db i e operator w)"
  "news w (db_queue_create db i e operator w) = [QueueCreate i e operator]"
  "store (db_queue_create db i e operator w) = queue_create db i e operator (store w)"
  by (simp_all add: db_queue_create_def grows_def news_def)


lemma onTransferSingle_other:
  "from \<noteq> AddressZero \<Longrightarrow>
     onTransferSingle fetch db mi operator from to i w =
       (Resolved (), logTransfer operator from to i w)"
  by (simp add: onTransferSingle_def)

lemma onTransferSingle_mint:
  "onTransferSingle fetch db mi operator AddressZero to i w =
     (case indexById fetch db i operator mi (logTransfer operator AddressZero to i w) of
        (Rejected x, w1) \<Rightarrow> (Rejected x, w1)
      | (Resolved None, w1) \<Rightarrow> (Resolved (), w1)
      | (Resolved (Some e), w1) \<Rightarrow> (Resolved (), db_queue_create db i e operator w1))"
proof -
  let ?r = "indexById fetch db i operator mi (logTransfer operator AddressZero to i w)"
  have "fst ?r \<noteq> Resolved (Some [])"
    using indexById_error [of fetch db i operator mi _ "[]"] by blast
  then show ?thesis
    by (cases ?r rule: prod.exhaust)
      (auto simp: onTransferSingle_def Let_def split: promise.splits option.splits)
qed

lemma onTransferSingle_indexed:
  "indexed (news w (snd (onTransferSingle fetch db mi operator from to i w))) =
     (if from = AddressZero then [(i, operator)] else [])"
proof (cases "from = AddressZero")
  case False
  then show ?thesis by (simp add: onTransferSingle_other)
next
  case True
  let ?w1 = "logTransfer operator AddressZero to i w"
  let ?r = "indexById fetch db i operator mi ?w1"
  have g: "grows w (snd ?r)" "news w (snd ?r) = news w ?w1 @ news ?w1 (snd ?r)"
    by (rule grows_trans [OF logTransfer_grows(2) indexById_news(1)])+
  have q: "\<And>e. grows w (db_queue_create db i e operator (snd ?r))"
    "\<And>e. news w (db_queue_create db i e operator (snd ?r)) = news w (snd ?r) @ [QueueCreate i e operator]"
    using grows_trans [OF g(1) db_queue_create_grows(1)] by simp_all
  show ?thesis
    unfolding True onTransferSingle_mint
    by (cases ?r rule: prod.exhaust) (use g q indexById_indexed [of ?w1 fetch db i operator mi] in
      \<open>auto split: promise.splits option.splits\<close>)
qed


section \<open>The reconciliation sweep\<close>

lemma fetchOriginalMinter_fst:
  "fst (fetchOriginalMinter i mi w) = originalMinter mi i"
  by (simp add: originalMinter_def fetchOriginalMinter_def Let_def split: option.splits)

lemma find_args:
  "find (\<lambda>event. map_option arg_id (args event) = Some i) evs = Some ev \<Longrightarrow> args ev \<noteq> None"
  by (auto simp: find_Some_iff)

lemma originalMinter_None:
  "(originalMinter mi i = None) =
     (find (\<lambda>event. map_option arg_id (args event) = Some i) (queryFilter mi) = None)"
proof (cases "find (\<lambda>event. map_option arg_id (args event) = Some i) (queryFilter mi)")
  case None
  then show ?thesis by (simp add: originalMinter_def fetchOriginalMinter_def Let_def)
next
  case (Some ev)
  with find_args [OF Some] show ?thesis
    by (simp add: originalMinter_def fetchOriginalMinter_def Let_def)
qed

lemma fetchOriginalMinter_snd:
  "snd (fetchOriginalMinter i mi w) =
     (case originalMinter mi i of
        None \<Rightarrow> emit (Console TargetEventFound) (emit (FetchOriginalMinter i) w)
      | Some operator \<Rightarrow> emit (FetchOriginalMinter i) w)"
proof (cases "find (\<lambda>event. map_option arg_id (args event) = Some i) (queryFilter mi)")
  case None
  then show ?thesis
    using originalMinter_None [of mi i] by (simp add: fetchOriginalMinter_def Let_def)
next
  case (Some ev)
  then show ?thesis
    using originalMinter_None [of mi i]
    by (simp add: fetchOriginalMinter_def Let_def split: option.splits)
qed

lemma fetchOriginalMinter_grows:
  "store (snd (fetchOriginalMinter i mi w)) = store w"
  "grows w (snd (fetchOriginalMinter i mi w))"
  "news w (snd (fetchOriginalMinter i mi w)) =
     FetchOriginalMinter i
       # (case originalMinter mi i of None \<Rightarrow> [Console TargetEventFound] | Some operator \<Rightarrow> [])"
  by (simp_all add: fetchOriginalMinter_snd grows_emit split: option.splits)

text \<open>The calls \<^verbatim>\<open>sync\<close> started, run after it returned.\<close>

lemma settle_news:
  "grows w (settle fetch db mi started w)
   \<and> indexed (news w (settle fetch db mi started w)) = []
   \<and> lookups (news w (settle fetch db mi started w)) = []
   \<and> map fst (returns (news w (settle fetch db mi started w))) = map fst started"
proof (induction started arbitrary: w)
  case Nil
  show ?case by simp
next
  case (Cons c started)
  obtain i operator where c: "c = (i, operator)"
    by (cases c)
  let ?w1 = "snd (runIndexById fetch db i operator mi w)"
  let ?w2 = "settle fetch db mi started ?w1"
  have ih: "grows ?w1 ?w2" "indexed (news ?w1 ?w2) = []" "lookups (news ?w1 ?w2) = []"
    "map fst (returns (news ?w1 ?w2)) = map fst started"
    using Cons.IH [of ?w1] by blast+
  have g1: "grows w ?w1"
    by (rule runIndexById_news(1))
  have g: "grows w ?w2" "news w ?w2 = news w ?w1 @ news ?w1 ?w2"
    by (rule grows_trans [OF g1 ih(1)])+
  have s: "settle fetch db mi (c # started) w = ?w2"
    unfolding c by simp
  show ?case
    unfolding s using g(1) by (simp add: g(2) ih(2-4) c runIndexById_views)
qed

text \<open>One pass of the loop of \<^verbatim>\<open>sync\<close>, by the answer of \<^verbatim>\<open>fetchOriginalMinter\<close>.\<close>

lemma sync_loop_stop:
  "\<not> hasMinter mi i \<Longrightarrow>
     sync_loop fetch db mi (i # rest) started w =
       settle fetch db mi started
         (emit (Console (FailedFetchingOperator i)) (snd (fetchOriginalMinter i mi w)))"
  using fetchOriginalMinter_fst [of i mi w]
  by (cases "fetchOriginalMinter i mi w") (auto simp: hasMinter_def split: option.splits)

lemma sync_loop_go:
  "originalMinter mi i = Some operator \<Longrightarrow> operator \<noteq> [] \<Longrightarrow>
     sync_loop fetch db mi (i # rest) started w =
       sync_loop fetch db mi rest (started @ [(i, operator)])
         (emit (IndexById i operator) (snd (fetchOriginalMinter i mi w)))"
  using fetchOriginalMinter_fst [of i mi w]
  by (cases "fetchOriginalMinter i mi w") (auto split: option.splits)

lemma sync_loop_news:
  "grows w (sync_loop fetch db mi ids started w)
   \<and> indexed (news w (sync_loop fetch db mi ids started w)) =
       map (minterOf mi) (takeWhile (hasMinter mi) ids)
   \<and> lookups (news w (sync_loop fetch db mi ids started w)) =
       take (Suc (length (takeWhile (hasMinter mi) ids))) ids"
proof (induction ids arbitrary: w started)
  case Nil
  show ?case
    using settle_news [where w = w and fetch = fetch and db = db and mi = mi and started = started] by simp
next
  case (Cons i rest)
  let ?w1 = "snd (fetchOriginalMinter i mi w)"
  show ?case
  proof (cases "hasMinter mi i")
    case False
    let ?w2 = "emit (Console (FailedFetchingOperator i)) ?w1"
    let ?w3 = "settle fetch db mi started ?w2"
    have g2: "grows w ?w2" "news w ?w2 = news w ?w1 @ [Console (FailedFetchingOperator i)]"
      by (rule grows_emit [OF fetchOriginalMinter_grows(2)])+
    have g3: "grows w ?w3" "news w ?w3 = news w ?w2 @ news ?w2 ?w3"
      using grows_trans [OF g2(1), of ?w3] settle_news [where w = ?w2 and fetch = fetch and db = db and mi = mi and started = started] by simp_all
    show ?thesis
      using False settle_news [where w = ?w2 and fetch = fetch and db = db and mi = mi and started = started]
      by (simp add: sync_loop_stop g3 g2(2) fetchOriginalMinter_grows(3) del: sync_loop.simps
          split: option.splits)
  next
    case True
    then obtain operator where op: "originalMinter mi i = Some operator" "operator \<noteq> []"
      by (auto simp: hasMinter_def split: option.splits)
    let ?w2 = "emit (IndexById i operator) ?w1"
    let ?w3 = "sync_loop fetch db mi rest (started @ [(i, operator)]) ?w2"
    have g2: "grows w ?w2" "news w ?w2 = news w ?w1 @ [IndexById i operator]"
      by (rule grows_emit [OF fetchOriginalMinter_grows(2)])+
    have g3: "grows w ?w3" "news w ?w3 = news w ?w2 @ news ?w2 ?w3"
      using grows_trans [OF g2(1), of ?w3] Cons.IH [where w = ?w2 and started = "started @ [(i, operator)]"]
      by simp_all
    show ?thesis
      using True op Cons.IH [where w = ?w2 and started = "started @ [(i, operator)]"]
      by (simp add: sync_loop_go [OF op] g3 g2(2) fetchOriginalMinter_grows(3)
          minterOf_def del: sync_loop.simps)
  qed
qed

lemma set_unqueueDiff:
  "set (unqueueDiff n data queue) = {1..n} - midi_id ` set data - queue_id ` set queue"
proof -
  have "set (map (\<lambda>i. i + 1) [0..<n]) = {1..n}"
    by (auto simp: image_iff)
  then show ?thesis
    by (auto simp: unqueueDiff_def Let_def)
qed

lemma tokenIDs_upt: "map (\<lambda>i. i + 1) [0..<n] = [1..<Suc n]"
  using map_Suc_upt [of 0 n] by simp

lemma unqueueDiff_sorted: "sorted (unqueueDiff n data queue) \<and> distinct (unqueueDiff n data queue)"
  unfolding unqueueDiff_def Let_def tokenIDs_upt
  by (simp add: sorted_wrt_filter del: upt_Suc)

lemma sync_news:
  "indexed (news w (sync fetch db mi w)) =
     (if currentTokenId mi = length (midi_fetch db (store w)) then []
      else map (minterOf mi) (takeWhile (hasMinter mi)
             (unqueueDiff (currentTokenId mi) (midi_fetch db (store w))
                (queue_fetch db 1000 (store w)))))"
proof -
  let ?w2 = "emit (QueueFetch 1000) (emit MidiFetch w)"
  let ?ids = "unqueueDiff (currentTokenId mi) (midi_fetch db (store w)) (queue_fetch db 1000 (store w))"
  have g: "grows w ?w2" "news w ?w2 = [MidiFetch, QueueFetch 1000]"
    by (simp_all add: grows_emit)
  have "news w (sync_loop fetch db mi ?ids [] ?w2) = news w ?w2 @ news ?w2 (sync_loop fetch db mi ?ids [] ?w2)"
    using grows_trans(2) [OF g(1), of "sync_loop fetch db mi ?ids [] ?w2"] sync_loop_news [where w = ?w2 and fetch = fetch and db = db and mi = mi and ids = ?ids and started = "[]"]
    by simp
  then show ?thesis
    using sync_loop_news [where w = ?w2 and fetch = fetch and db = db and mi = mi and ids = ?ids and started = "[]"]
    by (simp add: sync_def Let_def g)
qed

text \<open>
  When every id of the difference has a minter in the log, the sweep calls \<^verbatim>\<open>indexById\<close>
  for each of them, in ascending order, and for no other id.
\<close>

lemma sync_attempts_all:
  assumes "\<forall>i\<in>set (unqueueDiff (currentTokenId mi) (midi_fetch db (store w))
             (queue_fetch db 1000 (store w))). hasMinter mi i"
  shows "map fst (indexed (news w (sync fetch db mi w))) =
     (if currentTokenId mi = length (midi_fetch db (store w)) then []
      else unqueueDiff (currentTokenId mi) (midi_fetch db (store w))
             (queue_fetch db 1000 (store w)))"
proof -
  let ?ids = "unqueueDiff (currentTokenId mi) (midi_fetch db (store w))
      (queue_fetch db 1000 (store w))"
  have all: "takeWhile (hasMinter mi) ?ids = ?ids"
    using assms by (simp add: takeWhile_eq_all_conv)
  have "map fst (map (minterOf mi) ?ids) = ?ids"
    by (simp add: minterOf_def comp_def)
  then show ?thesis
    unfolding sync_news all by simp
qed

section \<open>The store a run leaves\<close>

lemma news_update [simp]:
  "news w (w\<lparr>trace := trace w @ es\<rparr>) = es"
  "news w (w\<lparr>store := s, trace := trace w @ es\<rparr>) = es"
  by (simp_all add: news_def)

lemma fold_replay_body [simp]:
  "fold (replay db) (Console l # t) s = fold (replay db) t s"
  "fold (replay db) (IndexById i operator # t) s = fold (replay db) t s"
  "fold (replay db) (IndexByIdReturn i r # t) s = fold (replay db) t s"
  "fold (replay db) (DevicesFetchByName name found # t) s = fold (replay db) t s"
  by simp_all

text \<open>\<^verbatim>\<open>indexById\<close> makes the writes its trace shows, and no other.\<close>

lemma indexById_replay:
  "store (snd (indexById fetch db i operator mi w)) =
     fold (replay db) (news w (snd (indexById fetch db i operator mi w))) (store w)"
proof (cases rule: indexById_cases [where fetch = fetch and db = db and i = i
      and operator = operator and mi = mi and w = w])
  case (found u0 res props name dev row e out)
  show ?thesis
    unfolding found(11) by (cases e) (simp_all add: found(9))
next
  case (created u0 res props name manu dev row e out)
  show ?thesis
    unfolding created(13) by (cases e) (simp_all add: created(11))
qed simp_all

section \<open>The queue drain\<close>






section \<open>When indexById rejects\<close>





section \<open>The database of the spec\<close>

lemma model_db_simps [simp]:
  "midi_create (model_db faults) row st =
     (case midi_fault faults st row of
        Some error \<Rightarrow> (Some error, st)
      | None \<Rightarrow> (None, st\<lparr>midi_rows := midi_rows st @ [row]\<rparr>))"
  "devices_create (model_db faults) name manu st =
     (if device_fault faults st name then (None, st)
      else (Some \<lparr>device_id = Suc (length (device_rows st)), device_name = name,
                  device_manufacturer = manu\<rparr>,
            st\<lparr>device_rows := device_rows st
               @ [\<lparr>device_id = Suc (length (device_rows st)), device_name = name,
                   device_manufacturer = manu\<rparr>]\<rparr>))"
  "queue_create (model_db faults) i error operator st =
     st\<lparr>queue_rows := queue_rows st @ [\<lparr>queue_id = i, queue_operator = operator,
                                           queue_attempts = 0, queue_error = error\<rparr>]\<rparr>"
  "queue_update (model_db faults) i n error st =
     st\<lparr>queue_rows := map (\<lambda>r. if queue_id r = i
                                  then r\<lparr>queue_attempts := n, queue_error := error\<rparr> else r)
                           (queue_rows st)\<rparr>"
  "queue_fetch (model_db faults) limit st = take limit (queue_rows st)"
  "midi_fetch (model_db faults) st = midi_rows st"
  by (simp_all add: model_db_def Let_def)




section \<open>Running the functions on concrete inputs\<close>

lemmas inputs = chain_def serve_def juno_def nameless_def bare_def unreachable_def world_of_def
  gateway_def mint_def token_def entry_def

lemmas run = indexById_def runIndexById_def indexById_body_def fetchMetadata_def createMidi_def
  emit_def model_db_def no_faults_def write_fault_def write_fault_for_def device_fault_always_def
  template_def coalesce_def
  fetchOriginalMinter_def db_queue_create_def db_queue_update_def logTransfer_def Let_def

lemmas views = news_def indexed_def returns_def lookups_def device_lookups_def
  device_creates_def midi_creates_def resolved_devices_def created_devices_def
  created_tokens_def db_calls_def queue_writes_def

lemmas sweep = sync_def unqueueDiff_def upt_rec

text \<open>The database of the spec keeps to the limit \<^verbatim>\<open>db.queue.fetch\<close> is given.\<close>

lemma model_fetch_bound: "length (queue_fetch (model_db faults) n s) \<le> n"
  by simp

text \<open>
  The calls of \<^verbatim>\<open>indexById\<close> that \<^verbatim>\<open>sync\<close> does not await, for comparison with the awaited
  ones of the drain: with the ids 1 and 2 missing, the sweep has started both calls
  before either settles.
\<close>

lemma sync_starts_before_settling:
  "sync (serve \<lparr>ok = True, json = Some nameless\<rparr>) (model_db no_faults)
      (chain 2 [mint 1 ''0xA'', mint 2 ''0xB'']) (world_of [] []) =
     (world_of [] [])\<lparr>trace := [MidiFetch, QueueFetch 1000,
        FetchOriginalMinter 1, IndexById 1 ''0xA'', FetchOriginalMinter 2, IndexById 2 ''0xB'',
        Console (MetadataIs nameless),
        IndexByIdReturn 1 (Resolved (Some ''no metadata.properties.device property'')),
        Console (MetadataIs nameless),
        IndexByIdReturn 2 (Resolved (Some ''no metadata.properties.device property''))]\<rparr>"
  by (simp add: sweep inputs run)

section \<open>The claims\<close>

text \<open>
  C1, on the code. With the counter 5, Token Records for 1 and 3 and a Queue Entry for 4,
  the difference \<^verbatim>\<open>sync\<close> computes is 2 and 5, as the claim says; the lemmas
  \<open>set_unqueueDiff\<close>, \<open>sync_news\<close> and \<open>sync_attempts_all\<close> above give the general fact. But
  when the mint event of id 2 is not in the log the contract returns, \<^verbatim>\<open>sync\<close> returns
  at id 2 (line 196): it has looked up id 2 only and has called \<^verbatim>\<open>indexById\<close> for
  neither 2 nor 5. With both mint events in the log it calls \<^verbatim>\<open>indexById\<close> for 2 and 5.
\<close>

theorem sweep_misses_missing_ids:
  "unqueueDiff 5 [token 1, token 3] [entry 4] = [2, 5]
   \<and> indexed (news (world_of [token 1, token 3] [entry 4])
        (sync (serve \<lparr>ok = True, json = Some juno\<rparr>) (model_db no_faults)
           (chain 5 [mint 5 ''0xA'']) (world_of [token 1, token 3] [entry 4]))) = []
   \<and> lookups (news (world_of [token 1, token 3] [entry 4])
        (sync (serve \<lparr>ok = True, json = Some juno\<rparr>) (model_db no_faults)
           (chain 5 [mint 5 ''0xA'']) (world_of [token 1, token 3] [entry 4]))) = [2]
   \<and> indexed (news (world_of [token 1, token 3] [entry 4])
        (sync (serve \<lparr>ok = True, json = Some juno\<rparr>) (model_db no_faults)
           (chain 5 [mint 5 ''0xA'', mint 2 ''0xB'']) (world_of [token 1, token 3] [entry 4]))) =
      [(2, ''0xB''), (5, ''0xA'')]"
  by (simp add: sweep inputs run views)

text \<open>
  C2, on the code. With the counter 2, no Token Record and no Queue Entry, and a log
  that holds the mint of id 2 only: the sweep looks up the minter of id 1, finds none,
  writes its two console lines and returns. Id 2 is never looked up: the \<^verbatim>\<open>return\<close> of
  line 196 leaves \<^verbatim>\<open>sync\<close>, not the pass of the loop.
\<close>

theorem sweep_stops_at_first_gap:
  "unqueueDiff 2 [] [] = [1, 2]
   \<and> sync (serve \<lparr>ok = True, json = Some juno\<rparr>) (model_db no_faults)
        (chain 2 [mint 2 ''0xA'']) (world_of [] []) =
      (world_of [] [])\<lparr>trace := [MidiFetch, QueueFetch 1000, FetchOriginalMinter 1,
         Console TargetEventFound, Console (FailedFetchingOperator 1)]\<rparr>"
  by (simp add: sweep inputs run)







text \<open>
  C5, as the spec states it, fails: one invocation can create a Device Record and no
  Token Record. Below, no device named Juno exists, \<^verbatim>\<open>db.devices.create\<close> succeeds and
  \<^verbatim>\<open>db.midi.create\<close> answers with an error: \<^verbatim>\<open>indexById\<close> resolves with the error of the
  token write, and the store holds the new device and no token.
\<close>

theorem device_without_token:
  "fst (indexById (serve \<lparr>ok = True, json = Some juno\<rparr>) (model_db write_fault) 1 ''0xA''
        (chain 1 []) (world_of [] [])) =
     Resolved (Some ''failed creating midi: 23505 duplicate key'')
   \<and> created_devices (news (world_of [] []) (snd (indexById (serve \<lparr>ok = True, json = Some juno\<rparr>)
        (model_db write_fault) 1 ''0xA'' (chain 1 []) (world_of [] [])))) =
      [\<lparr>device_id = 1, device_name = ''Juno'', device_manufacturer = ''Roland''\<rparr>]
   \<and> created_tokens (news (world_of [] []) (snd (indexById (serve \<lparr>ok = True, json = Some juno\<rparr>)
        (model_db write_fault) 1 ''0xA'' (chain 1 []) (world_of [] [])))) = []
   \<and> store (snd (indexById (serve \<lparr>ok = True, json = Some juno\<rparr>) (model_db write_fault) 1
        ''0xA'' (chain 1 []) (world_of [] []))) =
      \<lparr>device_rows = [\<lparr>device_id = 1, device_name = ''Juno'', device_manufacturer = ''Roland''\<rparr>],
       midi_rows = [], queue_rows = []\<rparr>"
  by (simp add: inputs run views)

text \<open>
  C5, amended. In one invocation of \<^verbatim>\<open>indexById\<close>, whatever the database answers:
  \<^verbatim>\<open>db.devices.create\<close> is called at most once and \<^verbatim>\<open>db.midi.create\<close> at most once; a
  device is created only after the lookup of that name found none. When the creation of
  the device fails, the name it was called with is the document's
  \<^verbatim>\<open>properties.device\<close> and the manufacturer the document's, or the empty string; the
  invocation resolves with the error \<^verbatim>\<open>creating device failed failed for\<close>, the
  document's manufacturer as a template literal prints it (\<^verbatim>\<open>undefined\<close> when it has
  none), a colon and that name (the
  code's value for device-create-failed); \<^verbatim>\<open>db.midi.create\<close> is not called, and the two
  calls on \<^verbatim>\<open>db\<close> were the lookup and the create. When a device was created and the token
  write then fails, the invocation resolves with the error of the token write, having
  created one device and no token, and makes no further call on \<^verbatim>\<open>db\<close>: nothing undoes
  the device. The token row is written with the id of the device that was found or
  created; the invocation resolves without an error exactly when \<^verbatim>\<open>db.midi.create\<close>
  reported none, that is, when it created one Token Record; when it called neither
  create, the store is unchanged; and in every case the store is the one the writes of
  the trace make, in their order.
\<close>

theorem index_writes:
  fixes fetch :: Fetch and db :: "'d DB" and i :: nat and operator :: address
    and mi :: Contract and w :: "'d world"
  defines "R \<equiv> indexById fetch db i operator mi w"
  defines "t \<equiv> news w (snd R)"
  shows "length (device_creates t) \<le> 1 \<and> length (midi_creates t) \<le> 1
    \<and> (device_creates t \<noteq> [] \<longrightarrow> map snd (device_lookups t) = [None]
          \<and> map fst (device_lookups t) = map fst (device_creates t))
    \<and> (\<forall>name manu. device_creates t = [(name, manu, None)] \<longrightarrow>
          midi_creates t = []
          \<and> db_calls t = [DevicesFetchByName name None, DevicesCreate name manu None]
          \<and> (\<exists>u0 res props. uri mi i = Some u0 \<and> fetch (gateway u0) = Some res
                \<and> json res = Some (Document (Some props)) \<and> device props = Some name
                \<and> manu = coalesce (manufacturer props) []
                \<and> fst R = Resolved (Some (''creating device failed failed for ''
                     @ template (manufacturer props) @ '': '' @ name))))
    \<and> (\<forall>name manu dev row err.
          device_creates t = [(name, manu, Some dev)] \<and> midi_creates t = [(row, Some err)] \<longrightarrow>
          created_devices t = [dev] \<and> created_tokens t = []
          \<and> fst R = Resolved (Some (''failed creating midi: '' @ details err @ '' ''
               @ message err))
          \<and> db_calls t = [DevicesFetchByName name None, DevicesCreate name manu (Some dev),
               MidiCreate row (Some err)])
    \<and> map (midi_device \<circ> fst) (midi_creates t) = map device_id (resolved_devices t)
    \<and> ((fst R = Resolved None) = (map snd (midi_creates t) = [None]))
    \<and> ((fst R = Resolved None) = (length (created_tokens t) = 1))
    \<and> length (created_devices t) \<le> 1 \<and> length (created_tokens t) \<le> 1
    \<and> (device_creates t = [] \<and> midi_creates t = [] \<longrightarrow> store (snd R) = store w)
    \<and> store (snd R) = fold (replay db) t (store w)"
proof -
  note v = device_lookups_def device_creates_def midi_creates_def resolved_devices_def
    created_devices_def created_tokens_def
  have last: "store (snd R) = fold (replay db) t (store w)"
    unfolding R_def t_def by (rule indexById_replay)
  show ?thesis
  proof (cases rule: indexById_cases [where fetch = fetch and db = db and i = i
        and operator = operator and mi = mi and w = w])
    case rpc
    show ?thesis
      using last unfolding t_def R_def rpc(2) by (simp add: v)
  next
    case (network u0)
    show ?thesis
      using last unfolding t_def R_def network(3) by (simp add: v)
  next
    case (not_ok u0 res)
    show ?thesis
      using last unfolding t_def R_def not_ok(4) by (simp add: v)
  next
    case (not_json u0 res)
    show ?thesis
      using last unfolding t_def R_def not_json(5) by (simp add: v)
  next
    case (falsy u0 res)
    show ?thesis
      using last unfolding t_def R_def falsy(5) by (simp add: v)
  next
    case (no_properties u0 res)
    show ?thesis
      using last unfolding t_def R_def no_properties(5) by (simp add: v)
  next
    case (missing u0 res props)
    show ?thesis
      using last unfolding t_def R_def missing(6) by (simp add: v)
  next
    case (found u0 res props name dev row e out)
    have md: "midi_device row = device_id dev"
      unfolding found(8) by simp
    show ?thesis
      using last unfolding t_def R_def found(11) found(10)
      by (cases e) (simp_all add: v md)
  next
    case (create_failed u0 res props name manu out)
    show ?thesis
      using last create_failed(1,2,4,5,8) unfolding t_def R_def create_failed(11) create_failed(10)
      by (simp add: v)
  next
    case (created u0 res props name manu dev row e out)
    have md: "midi_device row = device_id dev"
      unfolding created(10) by simp
    show ?thesis
      using last unfolding t_def R_def created(13) created(12)
      by (cases e) (simp_all add: v md)
  qed
qed

theorem index_writes_witness:
  "device_creates (news (world_of [] []) (snd (indexById (serve \<lparr>ok = True, json = Some juno\<rparr>)
      (model_db no_faults) 1 ''0xA'' (chain 1 []) (world_of [] [])))) \<noteq> []
   \<and> map snd (device_lookups (news (world_of [] []) (snd (indexById
        (serve \<lparr>ok = True, json = Some juno\<rparr>) (model_db no_faults) 1 ''0xA'' (chain 1 [])
        (world_of [] []))))) = [None]
   \<and> device_creates (news (world_of [] []) (snd (indexById
        (serve \<lparr>ok = True, json = Some juno\<rparr>) (model_db device_fault_always) 1 ''0xA''
        (chain 1 []) (world_of [] [])))) = [(''Juno'', ''Roland'', None)]
   \<and> midi_creates (news (world_of [] []) (snd (indexById
        (serve \<lparr>ok = True, json = Some juno\<rparr>) (model_db device_fault_always) 1 ''0xA''
        (chain 1 []) (world_of [] [])))) = []
   \<and> db_calls (news (world_of [] []) (snd (indexById
        (serve \<lparr>ok = True, json = Some juno\<rparr>) (model_db device_fault_always) 1 ''0xA''
        (chain 1 []) (world_of [] [])))) =
      [DevicesFetchByName ''Juno'' None, DevicesCreate ''Juno'' ''Roland'' None]
   \<and> device_creates (news (world_of [] []) (snd (indexById
        (serve \<lparr>ok = True, json = Some juno\<rparr>) (model_db write_fault) 1 ''0xA''
        (chain 1 []) (world_of [] [])))) =
      [(''Juno'', ''Roland'',
        Some \<lparr>device_id = 1, device_name = ''Juno'', device_manufacturer = ''Roland''\<rparr>)]
   \<and> midi_creates (news (world_of [] []) (snd (indexById
        (serve \<lparr>ok = True, json = Some juno\<rparr>) (model_db write_fault) 1 ''0xA''
        (chain 1 []) (world_of [] [])))) =
      [(\<lparr>midi_id = 1, midi_metadata = juno, midi_device = 1, midi_createdBy = ''0xA''\<rparr>,
        Some \<lparr>details = ''23505'', message = ''duplicate key''\<rparr>)]
   \<and> db_calls (news (world_of [] []) (snd (indexById
        (serve \<lparr>ok = True, json = Some juno\<rparr>) (model_db write_fault) 1 ''0xA''
        (chain 1 []) (world_of [] [])))) =
      [DevicesFetchByName ''Juno'' None,
       DevicesCreate ''Juno'' ''Roland''
         (Some \<lparr>device_id = 1, device_name = ''Juno'', device_manufacturer = ''Roland''\<rparr>),
       MidiCreate \<lparr>midi_id = 1, midi_metadata = juno, midi_device = 1, midi_createdBy = ''0xA''\<rparr>
         (Some \<lparr>details = ''23505'', message = ''duplicate key''\<rparr>)]
   \<and> device_creates (news (world_of [] []) (snd (indexById
        (serve \<lparr>ok = True, json = Some nameless\<rparr>) (model_db no_faults) 1 ''0xA'' (chain 1 [])
        (world_of [] [])))) = []
   \<and> midi_creates (news (world_of [] []) (snd (indexById
        (serve \<lparr>ok = True, json = Some nameless\<rparr>) (model_db no_faults) 1 ''0xA'' (chain 1 [])
        (world_of [] [])))) = []
   \<and> store (snd (indexById (serve \<lparr>ok = True, json = Some nameless\<rparr>) (model_db no_faults) 1
        ''0xA'' (chain 1 []) (world_of [] []))) = store (world_of [] [])"
proof -
  have 1: "device_creates (news (world_of [] []) (snd (indexById
        (serve \<lparr>ok = True, json = Some juno\<rparr>) (model_db no_faults) 1 ''0xA'' (chain 1 [])
        (world_of [] [])))) \<noteq> []"
    by (simp add: inputs run views)
  have 2: "device_creates (news (world_of [] []) (snd (indexById
        (serve \<lparr>ok = True, json = Some juno\<rparr>) (model_db device_fault_always) 1 ''0xA''
        (chain 1 []) (world_of [] [])))) = [(''Juno'', ''Roland'', None)]"
    by (simp add: inputs run views)
  have 3: "device_creates (news (world_of [] []) (snd (indexById
        (serve \<lparr>ok = True, json = Some juno\<rparr>) (model_db write_fault) 1 ''0xA''
        (chain 1 []) (world_of [] [])))) =
      [(''Juno'', ''Roland'',
        Some \<lparr>device_id = 1, device_name = ''Juno'', device_manufacturer = ''Roland''\<rparr>)]
      \<and> midi_creates (news (world_of [] []) (snd (indexById
        (serve \<lparr>ok = True, json = Some juno\<rparr>) (model_db write_fault) 1 ''0xA''
        (chain 1 []) (world_of [] [])))) =
      [(\<lparr>midi_id = 1, midi_metadata = juno, midi_device = 1, midi_createdBy = ''0xA''\<rparr>,
        Some \<lparr>details = ''23505'', message = ''duplicate key''\<rparr>)]"
    by (simp add: inputs run views)
  have 4: "device_creates (news (world_of [] []) (snd (indexById
        (serve \<lparr>ok = True, json = Some nameless\<rparr>) (model_db no_faults) 1 ''0xA'' (chain 1 [])
        (world_of [] [])))) = []
      \<and> midi_creates (news (world_of [] []) (snd (indexById
        (serve \<lparr>ok = True, json = Some nameless\<rparr>) (model_db no_faults) 1 ''0xA'' (chain 1 [])
        (world_of [] [])))) = []"
    by (simp add: inputs run views)
  note juno_run = index_writes [where fetch = "serve \<lparr>ok = True, json = Some juno\<rparr>"
      and db = "model_db no_faults" and i = 1 and operator = "''0xA''" and mi = "chain 1 []"
      and w = "world_of [] []"]
  note failing_device = index_writes [where fetch = "serve \<lparr>ok = True, json = Some juno\<rparr>"
      and db = "model_db device_fault_always" and i = 1 and operator = "''0xA''"
      and mi = "chain 1 []" and w = "world_of [] []"]
  note failing_write = index_writes [where fetch = "serve \<lparr>ok = True, json = Some juno\<rparr>"
      and db = "model_db write_fault" and i = 1 and operator = "''0xA''"
      and mi = "chain 1 []" and w = "world_of [] []"]
  note nameless_run = index_writes [where fetch = "serve \<lparr>ok = True, json = Some nameless\<rparr>"
      and db = "model_db no_faults" and i = 1 and operator = "''0xA''" and mi = "chain 1 []"
      and w = "world_of [] []"]
  note a = juno_run [THEN conjunct2, THEN conjunct2, THEN conjunct1, THEN mp, OF 1]
  note b = failing_device [THEN conjunct2, THEN conjunct2, THEN conjunct2, THEN conjunct1,
      THEN spec, THEN spec, THEN mp, OF 2]
  note c = failing_write [THEN conjunct2, THEN conjunct2, THEN conjunct2, THEN conjunct2,
      THEN conjunct1, THEN spec, THEN spec, THEN spec, THEN spec, THEN spec, THEN mp, OF 3]
  note d = nameless_run [THEN conjunct2, THEN conjunct2, THEN conjunct2, THEN conjunct2,
      THEN conjunct2, THEN conjunct2, THEN conjunct2, THEN conjunct2, THEN conjunct2,
      THEN conjunct2, THEN conjunct1, THEN mp, OF 4]
  show ?thesis
    using 1 2 3 4 a b c d by blast
qed




text \<open>
  C7. A transfer event whose \<^verbatim>\<open>from\<close> is not the zero address never triggers indexing
  and writes nothing: the handler resolves, and all it leaves behind is its four console
  lines; the store is the one it started with and no call on \<^verbatim>\<open>db\<close> was made. The
  events a handler adds hold a call of \<^verbatim>\<open>indexById\<close> exactly when \<^verbatim>\<open>from\<close> is the zero
  address, and then the one call, for the event's id and operator.
\<close>

theorem mint_filter:
  "(from \<noteq> AddressZero \<longrightarrow>
      onTransferSingle fetch db mi operator from to i w =
        (Resolved (), w\<lparr>trace := trace w @ [Console (LogOperator operator), Console (LogFrom from),
                            Console (LogTo to), Console (LogId i)]\<rparr>))
   \<and> indexed (news w (snd (onTransferSingle fetch db mi operator from to i w))) =
        (if from = AddressZero then [(i, operator)] else [])"
  by (simp add: onTransferSingle_other logTransfer_eq onTransferSingle_indexed)

theorem mint_filter_witness:
  "''0xB'' \<noteq> AddressZero
   \<and> onTransferSingle (serve \<lparr>ok = True, json = Some juno\<rparr>) (model_db no_faults)
        (chain 1 []) ''0xA'' ''0xB'' ''0xC'' 1 (world_of [] []) =
      (Resolved (), (world_of [] [])\<lparr>trace := [Console (LogOperator ''0xA''),
         Console (LogFrom ''0xB''), Console (LogTo ''0xC''), Console (LogId 1)]\<rparr>)
   \<and> indexed (news (world_of [] []) (snd (onTransferSingle (serve \<lparr>ok = True, json = Some juno\<rparr>)
        (model_db no_faults) (chain 1 []) ''0xA'' AddressZero ''0xC'' 1 (world_of [] [])))) =
      [(1, ''0xA'')]"
proof -
  have h: "''0xB'' \<noteq> AddressZero"
    by (simp add: AddressZero_def)
  show ?thesis
    using h
      mint_filter [of "''0xB''" "serve \<lparr>ok = True, json = Some juno\<rparr>" "model_db no_faults"
        "chain 1 []" "''0xA''" "''0xC''" 1 "world_of [] []"]
      mint_filter [of AddressZero "serve \<lparr>ok = True, json = Some juno\<rparr>" "model_db no_faults"
        "chain 1 []" "''0xA''" "''0xC''" 1 "world_of [] []"]
    by (simp add: world_of_def)
qed




text \<open>
  C9, on the code. The sweep calls \<^verbatim>\<open>indexById\<close> in line 199 and drops what it resolves
  with. Below, id 1 is missing, its minter is found, and its metadata has no device:
  \<^verbatim>\<open>indexById\<close> resolves with the error, and the sweep ends with no Token Record, no
  call on \<^verbatim>\<open>db.queue\<close> and no console line of a skip. The \<^verbatim>\<open>TransferSingle\<close> handler,
  on the same inputs, creates the Queue Entry.
\<close>

theorem sweep_drops_failure:
  "sync (serve \<lparr>ok = True, json = Some nameless\<rparr>) (model_db no_faults)
        (chain 1 [mint 1 ''0xA'']) (world_of [] []) =
      (world_of [] [])\<lparr>trace := [MidiFetch, QueueFetch 1000, FetchOriginalMinter 1,
         IndexById 1 ''0xA'', Console (MetadataIs nameless),
         IndexByIdReturn 1 (Resolved (Some ''no metadata.properties.device property''))]\<rparr>
   \<and> queue_rows (store (snd (onTransferSingle (serve \<lparr>ok = True, json = Some nameless\<rparr>)
        (model_db no_faults) (chain 1 [mint 1 ''0xA'']) ''0xA'' AddressZero ''0xA'' 1
        (world_of [] [])))) =
      [\<lparr>queue_id = 1, queue_operator = ''0xA'', queue_attempts = 0,
        queue_error = ''no metadata.properties.device property''\<rparr>]"
  by (simp add: sweep onTransferSingle_def inputs run)

text \<open>
  C10. When the counter \<^verbatim>\<open>currentTokenId()\<close> equals the number of rows \<^verbatim>\<open>db.midi.fetch()\<close>
  returns, \<^verbatim>\<open>sync\<close> does nothing after its two reads: no lookup of a minter, no
  \<^verbatim>\<open>indexById\<close>, no change of the store, whatever ids the rows carry. With rows for
  the ids 1 and 7 under the counter 2, id 2 has no row and would be in the difference,
  and the sweep leaves it.
\<close>

theorem sync_gate:
  "currentTokenId mi = length (midi_fetch db (store w)) \<Longrightarrow>
     sync fetch db mi w = w\<lparr>trace := trace w @ [MidiFetch, QueueFetch 1000]\<rparr>"
  by (simp add: sync_def Let_def emit_def)

theorem sync_gate_witness:
  "currentTokenId (chain 2 [mint 2 ''0xA'']) =
     length (midi_fetch (model_db no_faults) (store (world_of [token 1, token 7] [])))
   \<and> unqueueDiff 2 [token 1, token 7] [] = [2]
   \<and> sync (serve \<lparr>ok = True, json = Some juno\<rparr>) (model_db no_faults)
        (chain 2 [mint 2 ''0xA'']) (world_of [token 1, token 7] []) =
      (world_of [token 1, token 7] [])\<lparr>trace := [MidiFetch, QueueFetch 1000]\<rparr>"
proof -
  have h: "currentTokenId (chain 2 [mint 2 ''0xA'']) =
     length (midi_fetch (model_db no_faults) (store (world_of [token 1, token 7] [])))"
    by (simp add: chain_def model_db_def world_of_def)
  have u: "unqueueDiff 2 [token 1, token 7] [] = [2]"
    by (simp add: unqueueDiff_def token_def upt_rec)
  show ?thesis
    using h u sync_gate [OF h, of "serve \<lparr>ok = True, json = Some juno\<rparr>"]
    by (simp add: world_of_def)
qed

end
